theory Spec2Isabelle
  imports Complex_Main "HOL-Library.AList"
begin

section \<open>Python values and builtins used by the adapter\<close>

text \<open>
  Exceptions carry their class name and the text that \<^verbatim>\<open>str(e)\<close> gives. Every exception
  of this development is a subclass of \<^verbatim>\<open>Exception\<close>, so \<^verbatim>\<open>except Exception\<close> catches it;
  \<^verbatim>\<open>sys.exit\<close> is not an exception here but an exit status of its own.
\<close>

datatype exn = Exn (exn_class: string) (exn_str: string)

definition NL :: string where
  "NL = [CHR 0x0A]"

definition digit_char :: "nat \<Rightarrow> char" where
  "digit_char d = char_of (48 + d)"

fun show_nat :: "nat \<Rightarrow> string" where
  "show_nat n = (if n < 10 then [digit_char n] else show_nat (n div 10) @ [digit_char (n mod 10)])"

declare show_nat.simps [simp del]

definition show_int :: "int \<Rightarrow> string" where
  "show_int i = (if i < 0 then CHR ''-'' # show_nat (nat (- i)) else show_nat (nat i))"

definition show_bool :: "bool \<Rightarrow> string" where
  "show_bool b = (if b then ''True'' else ''False'')"

fun join :: "string \<Rightarrow> string list \<Rightarrow> string" where
  "join sep [] = []"
| "join sep [x] = x"
| "join sep (x # y # ys) = x @ sep @ join sep (y # ys)"

subsection \<open>repr of a string (ASCII)\<close>

definition hex_char :: "nat \<Rightarrow> char" where
  "hex_char d = (if d < 10 then char_of (48 + d) else char_of (87 + d))"

definition repr_char :: "char \<Rightarrow> char \<Rightarrow> string" where
  "repr_char q c =
     (if c = q \<or> c = CHR 0x5C then [CHR 0x5C, c]
      else if c = CHR 0x0A then [CHR 0x5C, CHR ''n'']
      else if c = CHR 0x0D then [CHR 0x5C, CHR ''r'']
      else if c = CHR 0x09 then [CHR 0x5C, CHR ''t'']
      else if of_char c < (32::nat) \<or> of_char c = (127::nat)
        then [CHR 0x5C, CHR ''x'', hex_char (of_char c div 16), hex_char (of_char c mod 16)]
      else [c])"

definition repr_str :: "string \<Rightarrow> string" where
  "repr_str s =
     (let q = (if CHR 0x27 \<in> set s \<and> CHR 0x22 \<notin> set s then CHR 0x22 else CHR 0x27)
      in q # concat (map (repr_char q) s) @ [q])"

subsection \<open>int() on a string\<close>

text \<open>
  \<^verbatim>\<open>int(s)\<close> in base 10: surrounding ASCII whitespace is stripped, one sign is allowed, and
  the digits may be grouped by single underscores. Anything else raises \<^verbatim>\<open>ValueError\<close>.
\<close>

definition py_isspace :: "char \<Rightarrow> bool" where
  "py_isspace c = (let n = (of_char c :: nat) in (9 \<le> n \<and> n \<le> 13) \<or> (28 \<le> n \<and> n \<le> 32))"

definition py_isdigit :: "char \<Rightarrow> bool" where
  "py_isdigit c = (let n = (of_char c :: nat) in 48 \<le> n \<and> n \<le> 57)"

definition digit_val :: "char \<Rightarrow> nat" where
  "digit_val c = of_char c - 48"

definition strip :: "string \<Rightarrow> string" where
  "strip s = rev (dropWhile py_isspace (rev (dropWhile py_isspace s)))"

fun digits_from :: "nat \<Rightarrow> string \<Rightarrow> nat option" where
  "digits_from acc [] = Some acc"
| "digits_from acc [c] = (if py_isdigit c then Some (10 * acc + digit_val c) else None)"
| "digits_from acc (c # d # cs) =
     (if py_isdigit c then digits_from (10 * acc + digit_val c) (d # cs)
      else if c = CHR ''_'' \<and> py_isdigit d then digits_from (10 * acc + digit_val d) cs
      else None)"

definition digits :: "string \<Rightarrow> nat option" where
  "digits s = (case s of [] \<Rightarrow> None
               | c # cs \<Rightarrow> if py_isdigit c then digits_from (digit_val c) cs else None)"

definition parse_int :: "string \<Rightarrow> int option" where
  "parse_int s =
     (case strip s of
        [] \<Rightarrow> None
      | c # cs \<Rightarrow>
          if c = CHR ''+'' then map_option int (digits cs)
          else if c = CHR ''-'' then map_option (\<lambda>n. - int n) (digits cs)
          else map_option int (digits (c # cs)))"

definition py_int :: "string \<Rightarrow> exn + int" where
  "py_int s =
     (case parse_int s of
        Some i \<Rightarrow> Inr i
      | None \<Rightarrow> Inl (Exn ''ValueError'' (''invalid literal for int() with base 10: '' @ repr_str s)))"

subsection \<open>os.path.join, os.walk\<close>

definition os_path_join :: "string \<Rightarrow> string \<Rightarrow> string" where
  "os_path_join a b =
     (if b \<noteq> [] \<and> hd b = CHR ''/'' then b
      else if a = [] \<or> last a = CHR ''/'' then a @ b
      else a @ ''/'' @ b)"

text \<open>A directory's contents: files and sub-directories, in the order the system lists them.\<close>

datatype fsnode = File string | Dir string "fsnode list"

fun dirnames :: "fsnode list \<Rightarrow> string list" where
  "dirnames [] = []"
| "dirnames (File n # es) = dirnames es"
| "dirnames (Dir n kids # es) = n # dirnames es"

fun filenames :: "fsnode list \<Rightarrow> string list" where
  "filenames [] = []"
| "filenames (File n # es) = n # filenames es"
| "filenames (Dir n kids # es) = filenames es"

text \<open>
  \<^verbatim>\<open>os.walk(top)\<close>, top-down: the triple of the directory itself, then the walk of each
  sub-directory in turn.
\<close>

fun os_walk :: "string \<Rightarrow> fsnode list \<Rightarrow> (string \<times> string list \<times> string list) list"
  and walk_subdirs :: "string \<Rightarrow> fsnode list \<Rightarrow> (string \<times> string list \<times> string list) list"
where
  "os_walk here entries = (here, dirnames entries, filenames entries) # walk_subdirs here entries"
| "walk_subdirs here [] = []"
| "walk_subdirs here (File n # es) = walk_subdirs here es"
| "walk_subdirs here (Dir n kids # es) = os_walk (os_path_join here n) kids @ walk_subdirs here es"

section \<open>The process state and its surroundings\<close>

text \<open>
  \<open>sys\<close> is what the adapter changes: the environment variables, the working directory,
  the directories it made, what it printed, the commands it ran, the files it wrote (oldest
  first), the prompts it sent, the evidence log (\<open>None\<close> until it is opened), and the
  ownership changes that succeeded.
\<close>

datatype json =
    JNull | JBool bool | JInt int | JFloat real | JStr string
  | JArr "json list" | JObj "(string \<times> json) list"

datatype content = Text string | Json json

datatype fs_op = Write string content | Append string string

record sys =
  environ :: "(string \<times> string) list"
  cwd :: string
  made_dirs :: "string list"
  console :: "string list"
  stderr :: "string list"
  commands :: "string list list"
  writes :: "fs_op list"
  queries :: "string list"
  execution_log :: "string list option"
  chowned :: "(string \<times> int \<times> int) list"

definition environ_get :: "sys \<Rightarrow> string \<Rightarrow> string option" where
  "environ_get s k = map_of (environ s) k"

definition print :: "string \<Rightarrow> sys \<Rightarrow> sys" where
  "print line s = s\<lparr>console := console s @ [line]\<rparr>"

definition print_stderr :: "string \<Rightarrow> sys \<Rightarrow> sys" where
  "print_stderr line s = s\<lparr>stderr := stderr s @ [line]\<rparr>"

text \<open>\<^verbatim>\<open>not s\<close> for an optional string: absent or empty.\<close>

definition falsy :: "string option \<Rightarrow> bool" where
  "falsy v = (case v of None \<Rightarrow> True | Some s \<Rightarrow> s = [])"

section \<open>Permission normalizer\<close>

text \<open>
  What the operating system answers is a parameter: \<open>tree_at\<close> lists the tree below a
  directory and \<open>chown_error\<close> says which \<^verbatim>\<open>os.chown\<close> calls raise.
\<close>

record fs_world =
  tree_at :: "string \<Rightarrow> fsnode list"
  chown_error :: "string \<Rightarrow> int \<Rightarrow> int \<Rightarrow> exn option"

definition chown_targets :: "string \<Rightarrow> fsnode list \<Rightarrow> string list" where
  "chown_targets directory entries =
     directory #
     concat (map (\<lambda>(here, dirs, files). map (os_path_join here) dirs @ map (os_path_join here) files)
                 (os_walk directory entries))"

text \<open>
  The \<^verbatim>\<open>os.chown\<close> calls in order. The first one that raises ends all the loops: the
  \<^verbatim>\<open>try\<close> encloses the whole traversal.
\<close>

fun chown_each :: "fs_world \<Rightarrow> int \<Rightarrow> int \<Rightarrow> string list \<Rightarrow> sys \<Rightarrow> exn option \<times> sys" where
  "chown_each w uid gid [] s = (None, s)"
| "chown_each w uid gid (p # ps) s =
     (case chown_error w p uid gid of
        Some e \<Rightarrow> (Some e, s)
      | None \<Rightarrow> chown_each w uid gid ps (s\<lparr>chowned := chowned s @ [(p, uid, gid)]\<rparr>))"

text \<open>\<^verbatim>\<open>fix_permissions\<close> of adapter.py.\<close>

definition fix_permissions :: "fs_world \<Rightarrow> string \<Rightarrow> sys \<Rightarrow> sys" where
  "fix_permissions w directory s =
     (let uid_str = environ_get s ''HOST_UID'';
          gid_str = environ_get s ''HOST_GID''
      in if falsy uid_str \<or> falsy gid_str then s
         else
           let warn = (\<lambda>e s'. print (''Warning: Failed to fix permissions: '' @ exn_str e) s')
           in case py_int (the uid_str) of
                Inl e \<Rightarrow> warn e s
              | Inr uid \<Rightarrow>
                 (case py_int (the gid_str) of
                    Inl e \<Rightarrow> warn e s
                  | Inr gid \<Rightarrow>
                     (let s1 = print (''Fixing permissions for '' @ directory @ '' to ''
                                       @ show_int uid @ '':'' @ show_int gid) s
                      in case chown_each w uid gid (chown_targets directory (tree_at w directory)) s1 of
                           (Some e, s2) \<Rightarrow> warn e s2
                         | (None, s2) \<Rightarrow> s2)))"

text \<open>
  \<^verbatim>\<open>PermissionFixer.fix_permissions\<close> of fs_helpers.py, called without \<^verbatim>\<open>uid\<close> and \<^verbatim>\<open>gid\<close>
  arguments or with them. The two \<^verbatim>\<open>int\<close> conversions stand before the \<^verbatim>\<open>try\<close>, so their
  \<^verbatim>\<open>ValueError\<close> leaves the function.
\<close>

definition env_int :: "sys \<Rightarrow> string \<Rightarrow> exn + int option" where
  "env_int s name =
     (let v = environ_get s name
      in if falsy v then Inr None
         else case py_int (the v) of Inl e \<Rightarrow> Inl e | Inr i \<Rightarrow> Inr (Some i))"

definition PermissionFixer_fix_permissions ::
  "fs_world \<Rightarrow> string \<Rightarrow> int option \<Rightarrow> int option \<Rightarrow> sys \<Rightarrow> exn + sys" where
  "PermissionFixer_fix_permissions w directory uid0 gid0 s =
     (case (case uid0 of None \<Rightarrow> env_int s ''HOST_UID'' | Some u \<Rightarrow> Inr (Some u)) of
        Inl e \<Rightarrow> Inl e
      | Inr uid \<Rightarrow>
         (case (case gid0 of None \<Rightarrow> env_int s ''HOST_GID'' | Some g \<Rightarrow> Inr (Some g)) of
            Inl e \<Rightarrow> Inl e
          | Inr gid \<Rightarrow>
             (case (uid, gid) of
                (Some u, Some g) \<Rightarrow>
                  (case chown_each w u g (chown_targets directory (tree_at w directory)) s of
                     (Some e, s2) \<Rightarrow>
                        Inr (print_stderr (''Warning: Failed to fix permissions: '' @ exn_str e) s2)
                   | (None, s2) \<Rightarrow> Inr s2)
              | _ \<Rightarrow> Inr s)))"

section \<open>Configuration (config.py)\<close>

text \<open>\<^verbatim>\<open>HolonConfig._int_env\<close>: the default when the variable is unset, empty or malformed.\<close>

definition int_env :: "sys \<Rightarrow> string \<Rightarrow> int option \<Rightarrow> int option" where
  "int_env s name dflt =
     (case environ_get s name of
        None \<Rightarrow> dflt
      | Some v \<Rightarrow> (if v = [] then dflt
                   else (case py_int v of Inr i \<Rightarrow> Some i | Inl e \<Rightarrow> dflt)))"

definition get_env_timeout_seconds :: "sys \<Rightarrow> int option" where
  "get_env_timeout_seconds s = int_env s ''HOLON_QUERY_TIMEOUT_SECONDS'' (Some 300)"

definition get_env_heartbeat_seconds :: "sys \<Rightarrow> int option" where
  "get_env_heartbeat_seconds s = int_env s ''HOLON_HEARTBEAT_SECONDS'' (Some 60)"


definition get_env_total_timeout_seconds :: "sys \<Rightarrow> int option" where
  "get_env_total_timeout_seconds s = int_env s ''HOLON_RESPONSE_TOTAL_TIMEOUT_SECONDS'' (Some 7200)"

definition get_env_host_uid :: "sys \<Rightarrow> int option" where
  "get_env_host_uid s = int_env s ''HOST_UID'' None"

definition get_env_host_gid :: "sys \<Rightarrow> int option" where
  "get_env_host_gid s = int_env s ''HOST_GID'' None"

section \<open>The task specification and its goal\<close>

text \<open>
  What \<^verbatim>\<open>yaml.safe_load\<close> returns, without floats, timestamps and binary values (their
  \<^verbatim>\<open>str\<close> is not modelled). A mapping lists its items in order, each key once.
\<close>

datatype yaml =
    YNull | YBool bool | YInt int | YStr string
  | YSeq "yaml list" | YMap "(yaml \<times> yaml) list"

primrec py_repr :: "yaml \<Rightarrow> string" where
  "py_repr YNull = ''None''"
| "py_repr (YBool b) = show_bool b"
| "py_repr (YInt i) = show_int i"
| "py_repr (YStr s) = repr_str s"
| "py_repr (YSeq xs) = ''['' @ join '', '' (map py_repr xs) @ '']''"
| "py_repr (YMap kvs) =
     ''{'' @ join '', '' (map (\<lambda>(k, v). k @ '': '' @ v) (map (map_prod py_repr py_repr) kvs)) @ ''}''"

definition py_str :: "yaml \<Rightarrow> string" where
  "py_str v = (case v of YStr s \<Rightarrow> s | _ \<Rightarrow> py_repr v)"

definition type_name :: "yaml \<Rightarrow> string" where
  "type_name v = (case v of YNull \<Rightarrow> ''NoneType'' | YBool b \<Rightarrow> ''bool'' | YInt i \<Rightarrow> ''int''
                  | YStr s \<Rightarrow> ''str'' | YSeq xs \<Rightarrow> ''list'' | YMap kvs \<Rightarrow> ''dict'')"

definition dict_get :: "(yaml \<times> yaml) list \<Rightarrow> string \<Rightarrow> yaml \<Rightarrow> yaml" where
  "dict_get d k dflt = (case map_of d (YStr k) of Some v \<Rightarrow> v | None \<Rightarrow> dflt)"

text \<open>
  Lines 59 to 63 of \<^verbatim>\<open>run_adapter\<close>: \<^verbatim>\<open>spec.get\<close> needs a mapping (anything else has no
  \<^verbatim>\<open>get\<close>), and the goal of a mapping is its \<^verbatim>\<open>description\<close> entry as it is.
\<close>

definition extract_goal :: "yaml \<Rightarrow> exn + yaml" where
  "extract_goal spec =
     (case spec of
        YMap d \<Rightarrow>
          (let goal_val = dict_get d ''goal'' (YStr [])
           in case goal_val of
                YMap g \<Rightarrow> Inr (dict_get g ''description'' (YStr []))
              | _ \<Rightarrow> Inr (YStr (py_str goal_val)))
      | _ \<Rightarrow> Inl (Exn ''AttributeError''
                     (repr_str (type_name spec) @ '' object has no attribute '' @ repr_str ''get'')))"

section \<open>The agent runtime and the rest of the surroundings\<close>

text \<open>
  The messages of the SDK by the cases \<^verbatim>\<open>run_adapter\<close> tells apart; what it does not look
  at is an opaque string.
\<close>

datatype block = TextBlock string | ToolUseBlock string | OtherBlock string

datatype msg = AssistantMessage "block list" | ResultMessage string bool | OtherMessage string

text \<open>
  How a response ends when no \<^verbatim>\<open>ResultMessage\<close> stopped the loop before: the iterator is
  exhausted, it raises, or it never delivers anything more.
\<close>

datatype stream_end = Exhausted | Raises exn | Never

text \<open>
  \<open>world\<close> is what the surroundings answer: the input files, the version-control tool
  (assumed installed; \<open>returncode\<close> is the exit status of a command), the settings file,
  the agent session (each message with the seconds waited before it arrived), the clock,
  the diff text and the summary the agent may have left. The workspace directory is
  taken to exist and the writes of the adapter to succeed. A response is a finite list of
  messages; that nothing more ever arrives is the ending \<open>Never\<close>.
\<close>

record world =
  fsw :: fs_world
  spec_file :: "(exn + yaml) option"
  system_prompt_file :: "string option"
  user_prompt_file :: "string option"
  has_git :: bool
  returncode :: "string list \<Rightarrow> nat"
  home :: string
  claude_settings :: "(exn + json) option"
  connect_error :: "exn option"
  query_error :: "exn option"
  stream :: "(nat \<times> msg) list"
  stream_end :: stream_end
  msg_str :: "msg \<Rightarrow> string"
  start_time :: real
  end_time :: real
  diff_stdout :: string
  agent_summary :: "string option"

datatype exit_status = Returned | SysExit int | Uncaught exn | Blocked

datatype 'a outcome = Done 'a | Raised exn | Waiting

definition output_dir :: string where
  "output_dir = ''/holon/output''"

definition evidence_dir :: string where
  "evidence_dir = os_path_join output_dir ''evidence''"

definition workspace_path :: string where
  "workspace_path = ''/holon/workspace''"

definition makedirs :: "string \<Rightarrow> sys \<Rightarrow> sys" where
  "makedirs p s = s\<lparr>made_dirs := made_dirs s @ [p]\<rparr>"

definition write_file :: "string \<Rightarrow> content \<Rightarrow> sys \<Rightarrow> sys" where
  "write_file p c s = s\<lparr>writes := writes s @ [Write p c]\<rparr>"

definition append_file :: "string \<Rightarrow> string \<Rightarrow> sys \<Rightarrow> sys" where
  "append_file p t s = s\<lparr>writes := writes s @ [Append p t]\<rparr>"

definition log_write :: "string \<Rightarrow> sys \<Rightarrow> sys" where
  "log_write chunk s =
     s\<lparr>execution_log := Some ((case execution_log s of None \<Rightarrow> [] | Some cs \<Rightarrow> cs) @ [chunk])\<rparr>"

text \<open>\<^verbatim>\<open>subprocess.run\<close>: with \<^verbatim>\<open>check=True\<close> a non-zero exit status raises.\<close>

definition subprocess_run :: "world \<Rightarrow> string list \<Rightarrow> bool \<Rightarrow> sys \<Rightarrow> exn option \<times> sys" where
  "subprocess_run w cmd check s =
     (let s' = s\<lparr>commands := commands s @ [cmd]\<rparr>
      in if check \<and> returncode w cmd \<noteq> 0
         then (Some (Exn ''CalledProcessError''
                  (''Command '' @ [CHR 0x27] @ py_repr (YSeq (map YStr cmd)) @ [CHR 0x27]
                   @ '' returned non-zero exit status '' @ show_nat (returncode w cmd) @ ''.'')), s')
         else (None, s'))"

definition then_run :: "exn option \<times> sys \<Rightarrow> (sys \<Rightarrow> exn option \<times> sys) \<Rightarrow> exn option \<times> sys" where
  "then_run r f = (case r of (Some e, s) \<Rightarrow> (Some e, s) | (None, s) \<Rightarrow> f s)"

section \<open>Loading the inputs (lines 41 to 89)\<close>

definition load_inputs :: "world \<Rightarrow> sys \<Rightarrow> (exit_status + yaml \<times> string \<times> string) \<times> sys" where
  "load_inputs w s =
     (let s = print ''Holon Claude Adapter Starting...'' s;
          s = makedirs output_dir s;
          s = makedirs evidence_dir s;
          spec_path = ''/holon/input/spec.yaml'';
          prompt_path = ''/holon/input/prompts/system.md'';
          user_prompt_path = ''/holon/input/prompts/user.md''
      in case spec_file w of
           None \<Rightarrow> (Inl (SysExit 1), print (''Error: Spec not found at '' @ spec_path) s)
         | Some (Inl e) \<Rightarrow> (Inl (Uncaught e), s)
         | Some (Inr spec) \<Rightarrow>
            (case extract_goal spec of
               Inl e \<Rightarrow> (Inl (Uncaught e), s)
             | Inr goal \<Rightarrow>
                (let s = print (''Task Goal: '' @ py_str goal) s
                 in case system_prompt_file w of
                      None \<Rightarrow>
                        (Inl (SysExit 1),
                         print (''Error: Compiled system prompt not found at '' @ prompt_path) s)
                    | Some system_instruction \<Rightarrow>
                       (let s = print (''Loading compiled system prompt from '' @ prompt_path) s
                        in case user_prompt_file w of
                             None \<Rightarrow>
                               (Inl (SysExit 1),
                                print (''Error: Compiled user prompt not found at ''
                                       @ user_prompt_path) s)
                           | Some user_msg \<Rightarrow>
                               (Inr (goal, system_instruction, user_msg),
                                print (''Loading compiled user prompt from '' @ user_prompt_path) s)))))"

section \<open>Workspace baseline (lines 91 to 113)\<close>

definition git_config_commands :: "string list list" where
  "git_config_commands =
     [[''git'', ''config'', ''--global'', ''--add'', ''safe.directory'', ''/holon/workspace''],
      [''git'', ''config'', ''--global'', ''user.name'', ''holon-adapter''],
      [''git'', ''config'', ''--global'', ''user.email'', ''adapter@holon.local'']]"

definition gitignore_lines :: string where
  "gitignore_lines = NL @ ''__pycache__/'' @ NL @ ''*.pyc'' @ NL @ ''*.pyo'' @ NL @ ''.DS_Store'' @ NL"

definition git_baseline :: "world \<Rightarrow> sys \<Rightarrow> exn option \<times> sys" where
  "git_baseline w s =
     (let s = s\<lparr>cwd := workspace_path\<rparr>;
          s = s\<lparr>environ := AList.update ''IS_SANDBOX'' ''1'' (environ s)\<rparr>;
          s = foldl (\<lambda>s cmd. snd (subprocess_run w cmd False s)) s git_config_commands
      in if \<not> has_git w then
           then_run (subprocess_run w [''git'', ''init''] True
                       (print ''No git repo found in workspace. Initializing temporary baseline...'' s))
             (\<lambda>s. then_run (subprocess_run w [''git'', ''add'', ''-A''] True
                               (append_file ''.gitignore'' gitignore_lines s))
                (\<lambda>s. subprocess_run w [''git'', ''commit'', ''-m'', ''holon-baseline''] True s))
         else (None, print ''Existing git repo found. Baseline established.'' s))"

section \<open>Settings synchronisation (lines 115 to 141)\<close>

definition json_type_name :: "json \<Rightarrow> string" where
  "json_type_name j = (case j of JNull \<Rightarrow> ''NoneType'' | JBool b \<Rightarrow> ''bool'' | JInt i \<Rightarrow> ''int''
                       | JFloat r \<Rightarrow> ''float'' | JStr s \<Rightarrow> ''str'' | JArr xs \<Rightarrow> ''list''
                       | JObj kvs \<Rightarrow> ''dict'')"

text \<open>\<^verbatim>\<open>a or b\<close> on two optional strings.\<close>

definition str_or :: "string option \<Rightarrow> string option \<Rightarrow> string option" where
  "str_or a b = (if falsy a then b else a)"

definition sync_env_section :: "sys \<Rightarrow> (string \<times> json) list \<Rightarrow> (string \<times> json) list" where
  "sync_env_section s env_section =
     (let auth_token = str_or (environ_get s ''ANTHROPIC_AUTH_TOKEN'') (environ_get s ''ANTHROPIC_API_KEY'');
          base_url = str_or (environ_get s ''ANTHROPIC_BASE_URL'') (environ_get s ''ANTHROPIC_API_URL'');
          e1 = (if falsy auth_token then env_section
                else AList.update ''ANTHROPIC_API_KEY'' (JStr (the auth_token))
                       (AList.update ''ANTHROPIC_AUTH_TOKEN'' (JStr (the auth_token)) env_section));
          e2 = (if falsy base_url then e1
                else AList.update ''CLAUDE_CODE_API_URL'' (JStr (the base_url))
                       (AList.update ''ANTHROPIC_API_URL'' (JStr (the base_url))
                          (AList.update ''ANTHROPIC_BASE_URL'' (JStr (the base_url)) e1)))
      in AList.update ''IS_SANDBOX'' (JStr ''1'') e2)"

definition sync_settings :: "world \<Rightarrow> sys \<Rightarrow> sys" where
  "sync_settings w s =
     (let claude_settings_path = home w @ ''/.claude/settings.json'';
          warn = (\<lambda>msg. print (''Warning: Failed to sync Claude settings: '' @ msg) s)
      in case claude_settings w of
           None \<Rightarrow> s
         | Some (Inl e) \<Rightarrow> warn (exn_str e)
         | Some (Inr (JObj settings)) \<Rightarrow>
            (case (case map_of settings ''env'' of None \<Rightarrow> JObj [] | Some v \<Rightarrow> v) of
               JObj env_section \<Rightarrow>
                 print (''Synced environment to '' @ claude_settings_path)
                   (write_file claude_settings_path
                      (Json (JObj (AList.update ''env'' (JObj (sync_env_section s env_section)) settings))) s)
             | JArr xs \<Rightarrow> warn ''list indices must be integers or slices, not str''
             | v \<Rightarrow> warn (repr_str (json_type_name v) @ '' object does not support item assignment''))
         | Some (Inr v) \<Rightarrow>
             warn (repr_str (json_type_name v) @ '' object has no attribute '' @ repr_str ''get''))"

section \<open>The agent session (lines 161 to 190)\<close>

text \<open>The inner loop over the content blocks of an assistant message.\<close>

fun add_text :: "string \<Rightarrow> block list \<Rightarrow> string" where
  "add_text final_output [] = final_output"
| "add_text final_output (TextBlock t # bs) = add_text (final_output @ t) bs"
| "add_text final_output (b # bs) = add_text final_output bs"

text \<open>
  The loop over \<^verbatim>\<open>client.receive_response()\<close>. The waiting time of a message is not
  looked at: the loop has no timer. A \<^verbatim>\<open>ResultMessage\<close> breaks out of it.
\<close>

fun receive_response ::
  "world \<Rightarrow> (nat \<times> msg) list \<Rightarrow> string \<times> bool \<Rightarrow> sys \<Rightarrow> (string \<times> bool) outcome \<times> sys" where
  "receive_response w [] (final_output, success) s =
     (case stream_end w of
        Exhausted \<Rightarrow> (Done (final_output, success), s)
      | Raises e \<Rightarrow> (Raised e, s)
      | Never \<Rightarrow> (Waiting, s))"
| "receive_response w ((waited, m) # rest) (final_output, success) s =
     (let s = log_write (''Message: '' @ msg_str w m @ NL) s
      in case m of
           AssistantMessage content \<Rightarrow>
             receive_response w rest (add_text final_output content, success) s
         | ResultMessage subtype is_error \<Rightarrow>
             (Done (final_output, if is_error then False else success),
              print (''Task result: '' @ subtype @ '', is_error: '' @ show_bool is_error) s)
         | OtherMessage x \<Rightarrow> receive_response w rest (final_output, success) s)"

definition log_file_path :: string where
  "log_file_path = os_path_join evidence_dir ''execution.log''"

definition session :: "world \<Rightarrow> string \<Rightarrow> sys \<Rightarrow> (string \<times> bool) outcome \<times> sys" where
  "session w user_msg s =
     (let s = print ''Connecting to Claude Code...'' s
      in case connect_error w of
           Some e \<Rightarrow> (Raised e, s)
         | None \<Rightarrow>
            (let s = print ''Session established. Running query...'' s;
                 s = s\<lparr>execution_log := Some []\<rparr>;
                 s = s\<lparr>queries := queries s @ [user_msg]\<rparr>
             in case query_error w of
                  Some e \<Rightarrow> (Raised e, s)
                | None \<Rightarrow>
                   (case receive_response w (stream w) ([], True) s of
                      (Done (result, success), s) \<Rightarrow>
                        (let s = log_write (''--- FINAL OUTPUT ---'' @ NL @ result @ NL) s;
                             s = print (''Claude Code execution finished. Success: ''
                                        @ show_bool success) s
                         in (Done (result, success), s))
                    | (Raised e, s) \<Rightarrow> (Raised e, s)
                    | (Waiting, s) \<Rightarrow> (Waiting, s))))"

section \<open>Artifacts (lines 192 to 250) and the failure path (lines 252 to 263)\<close>

definition success_manifest :: "bool \<Rightarrow> real \<Rightarrow> json" where
  "success_manifest success duration =
     JObj [(''metadata'', JObj [(''adapter'', JStr ''claude-code''), (''version'', JStr ''0.1.0'')]),
           (''status'', JStr ''completed''),
           (''outcome'', JStr (if success then ''success'' else ''failure'')),
           (''duration'', JFloat duration),
           (''artifacts'',
              JArr [JObj [(''name'', JStr ''diff.patch''), (''path'', JStr ''diff.patch'')],
                    JObj [(''name'', JStr ''summary.md''), (''path'', JStr ''summary.md'')],
                    JObj [(''name'', JStr ''evidence''), (''path'', JStr ''evidence/'')]])]"

definition failure_manifest :: "exn \<Rightarrow> json" where
  "failure_manifest e =
     JObj [(''status'', JStr ''completed''),
           (''outcome'', JStr ''failure''),
           (''error'', JStr (exn_str e))]"

definition manifest_path :: string where
  "manifest_path = os_path_join output_dir ''manifest.json''"

definition diff_path :: string where
  "diff_path = os_path_join output_dir ''diff.patch''"

definition summary_out :: string where
  "summary_out = os_path_join output_dir ''summary.md''"

definition fallback_summary :: "yaml \<Rightarrow> bool \<Rightarrow> string \<Rightarrow> string" where
  "fallback_summary goal success result =
     (let display_goal = map (\<lambda>c. if c = CHR 0x0A then CHR '' '' else c) (py_str goal)
      in ''# Task Summary'' @ NL @ NL @ ''Goal: '' @ display_goal @ NL @ NL
         @ ''Outcome: '' @ (if success then ''Success'' else ''Failure'') @ NL @ NL
         @ ''## Actions'' @ NL @ result @ NL)"

definition generate_artifacts :: "world \<Rightarrow> yaml \<Rightarrow> string \<Rightarrow> bool \<Rightarrow> sys \<Rightarrow> sys" where
  "generate_artifacts w goal result success s =
     (let duration = end_time w - start_time w;
          s = snd (subprocess_run w [''git'', ''add'', ''-A''] False s);
          s = snd (subprocess_run w
                     [''git'', ''diff'', ''--cached'', ''--patch'', ''--binary'', ''--full-index''] False s);
          patch_content = diff_stdout w;
          s = print (''Generated patch: size='' @ show_nat (length patch_content) @ '' characters'') s;
          s = write_file manifest_path (Json (success_manifest success duration)) s;
          s = write_file diff_path (Text patch_content) s;
          (summary_text, s) =
             (case agent_summary w of
                Some t \<Rightarrow> (t, print ''Found user-generated summary.md in /holon/output.'' s)
              | None \<Rightarrow> (fallback_summary goal success result,
                         print ''No summary.md found. Falling back to execution log.'' s));
          s = write_file summary_out (Text summary_text) s;
          s = print (''Artifacts written to '' @ output_dir) s
      in fix_permissions (fsw w) output_dir s)"

definition failure_path :: "world \<Rightarrow> exn \<Rightarrow> sys \<Rightarrow> sys" where
  "failure_path w e s =
     (let s = print (''Execution failed: '' @ exn_str e) s;
          s = write_file manifest_path (Json (failure_manifest e)) s
      in fix_permissions (fsw w) output_dir s)"

section \<open>The whole run\<close>

definition run_adapter :: "world \<Rightarrow> sys \<Rightarrow> exit_status \<times> sys" where
  "run_adapter w s =
     (case load_inputs w s of
        (Inl status, s) \<Rightarrow> (status, s)
      | (Inr (goal, system_instruction, user_msg), s) \<Rightarrow>
         (case git_baseline w s of
            (Some e, s) \<Rightarrow> (Uncaught e, s)
          | (None, s) \<Rightarrow>
             (let s = sync_settings w s
              in case session w user_msg s of
                   (Done (result, success), s) \<Rightarrow>
                     (Returned, generate_artifacts w goal result success s)
                 | (Raised e, s) \<Rightarrow> (SysExit 1, failure_path w e s)
                 | (Waiting, s) \<Rightarrow> (Blocked, s))))"

section \<open>Notions used to state the properties\<close>






text \<open>
  The stream as the specification speaks of it: the text payload of a message, the
  concatenation of the payloads of a sequence of messages, the first \<^verbatim>\<open>Result\<close> and the
  messages before it.
\<close>

fun is_result :: "msg \<Rightarrow> bool" where
  "is_result (ResultMessage subtype is_error) = True"
| "is_result m = False"

fun block_text :: "block \<Rightarrow> string" where
  "block_text (TextBlock t) = t"
| "block_text b = []"

fun msg_text :: "msg \<Rightarrow> string" where
  "msg_text (AssistantMessage content) = concat (map block_text content)"
| "msg_text m = []"

definition all_text :: "(nat \<times> msg) list \<Rightarrow> string" where
  "all_text ms = concat (map (\<lambda>(waited, m). msg_text m) ms)"

fun terminal_result :: "(nat \<times> msg) list \<Rightarrow> bool option" where
  "terminal_result [] = None"
| "terminal_result ((waited, ResultMessage subtype is_error) # ms) = Some is_error"
| "terminal_result (x # ms) = terminal_result ms"

definition log_line :: "world \<Rightarrow> nat \<times> msg \<Rightarrow> string" where
  "log_line w x = ''Message: '' @ msg_str w (snd x) @ NL"

definition final_output_line :: "string \<Rightarrow> string" where
  "final_output_line result = ''--- FINAL OUTPUT ---'' @ NL @ result @ NL"

text \<open>The exception that ends the session, if one does.\<close>

definition session_error :: "world \<Rightarrow> exn option" where
  "session_error w =
     (case connect_error w of
        Some e \<Rightarrow> Some e
      | None \<Rightarrow>
         (case query_error w of
            Some e \<Rightarrow> Some e
          | None \<Rightarrow>
             (case terminal_result (stream w) of
                Some is_error \<Rightarrow> None
              | None \<Rightarrow> (case stream_end w of Raises e \<Rightarrow> Some e | _ \<Rightarrow> None))))"

text \<open>
  What the loop has accumulated and logged when it stops: the text of the messages before
  the first \<^verbatim>\<open>Result\<close>, and the messages up to and including it.
\<close>

fun accumulated :: "(nat \<times> msg) list \<Rightarrow> string" where
  "accumulated [] = []"
| "accumulated ((waited, ResultMessage subtype is_error) # ms) = []"
| "accumulated ((waited, m) # ms) = msg_text m @ accumulated ms"

fun consumed :: "(nat \<times> msg) list \<Rightarrow> (nat \<times> msg) list" where
  "consumed [] = []"
| "consumed ((waited, ResultMessage subtype is_error) # ms) = [(waited, ResultMessage subtype is_error)]"
| "consumed (x # ms) = x # consumed ms"

fun task_result_lines :: "(nat \<times> msg) list \<Rightarrow> string list" where
  "task_result_lines [] = []"
| "task_result_lines ((waited, ResultMessage subtype is_error) # ms) =
     [''Task result: '' @ subtype @ '', is_error: '' @ show_bool is_error]"
| "task_result_lines (x # ms) = task_result_lines ms"

text \<open>The session waits for ever: no \<^verbatim>\<open>Result\<close> came and nothing more will.\<close>

definition session_hangs :: "world \<Rightarrow> bool" where
  "session_hangs w =
     (connect_error w = None \<and> query_error w = None
      \<and> terminal_result (stream w) = None \<and> stream_end w = Never)"

text \<open>
  The run gets as far as the session: the three input files are there, the specification
  is a mapping, and the baseline commands succeed where they are needed.
\<close>

definition ready :: "world \<Rightarrow> bool" where
  "ready w =
     ((case spec_file w of Some (Inr (YMap d)) \<Rightarrow> True | _ \<Rightarrow> False)
      \<and> system_prompt_file w \<noteq> None \<and> user_prompt_file w \<noteq> None
      \<and> (has_git w
          \<or> (returncode w [''git'', ''init''] = 0 \<and> returncode w [''git'', ''add'', ''-A''] = 0
              \<and> returncode w [''git'', ''commit'', ''-m'', ''holon-baseline''] = 0)))"

definition goal_of :: "world \<Rightarrow> yaml" where
  "goal_of w = (case spec_file w of
                  Some (Inr spec) \<Rightarrow> (case extract_goal spec of Inr goal \<Rightarrow> goal | Inl e \<Rightarrow> YStr [])
                | _ \<Rightarrow> YStr [])"

definition user_msg_of :: "world \<Rightarrow> string" where
  "user_msg_of w = (case user_prompt_file w of Some t \<Rightarrow> t | None \<Rightarrow> [])"

text \<open>The state in which the session starts.\<close>

definition before_session :: "world \<Rightarrow> sys \<Rightarrow> sys" where
  "before_session w s = sync_settings w (snd (git_baseline w (snd (load_inputs w s))))"


text \<open>Commands that create a commit.\<close>

definition is_commit :: "string list \<Rightarrow> bool" where
  "is_commit cmd = (take 2 cmd = [''git'', ''commit''])"

definition commit_count :: "sys \<Rightarrow> nat" where
  "commit_count s = length (filter is_commit (commands s))"

section \<open>Concrete runs\<close>

definition sys0 :: "(string \<times> string) list \<Rightarrow> sys" where
  "sys0 env = \<lparr>environ = env, cwd = ''/'', made_dirs = [], console = [], stderr = [],
               commands = [], writes = [], queries = [], execution_log = None, chowned = []\<rparr>"

definition fs0 :: fs_world where
  "fs0 = \<lparr>tree_at = (\<lambda>d. [File ''manifest.json'', Dir ''evidence'' [File ''execution.log'']]),
          chown_error = (\<lambda>p uid gid. None)\<rparr>"


definition show_msg :: "msg \<Rightarrow> string" where
  "show_msg m = (case m of AssistantMessage content \<Rightarrow> ''AssistantMessage('' @ concat (map block_text content) @ '')''
                 | ResultMessage subtype is_error \<Rightarrow> ''ResultMessage('' @ subtype @ '', '' @ show_bool is_error @ '')''
                 | OtherMessage x \<Rightarrow> x)"

text \<open>
  A run with all inputs in place, an initialised workspace and a session that answers
  \<open>ms\<close> and then ends as \<open>fin\<close>.
\<close>

definition world0 :: "yaml \<Rightarrow> (nat \<times> msg) list \<Rightarrow> stream_end \<Rightarrow> world" where
  "world0 goal ms fin =
     \<lparr>fsw = fs0, spec_file = Some (Inr (YMap [(YStr ''goal'', goal)])),
      system_prompt_file = Some ''Stay in the workspace.'', user_prompt_file = Some ''Add a README'',
      has_git = True, returncode = (\<lambda>cmd. 0), home = ''/root'', claude_settings = None,
      connect_error = None, query_error = None, stream = ms, stream_end = fin,
      msg_str = show_msg, start_time = 100, end_time = 160, diff_stdout = [],
      agent_summary = None\<rparr>"


text \<open>
  The runs used below: two text messages and a clean result; a result that arrives after
  2000 seconds; a session that never answers; a refused connection; a response that ends
  without a result; a result reporting an error.
\<close>

definition w_scenario :: world where
  "w_scenario = world0 (YStr ''Add a README'')
     [(1, AssistantMessage [TextBlock ''Creating file'']),
      (1, AssistantMessage [ToolUseBlock ''Write'', TextBlock ''Done'']),
      (1, ResultMessage ''success'' False),
      (1, AssistantMessage [TextBlock ''ignored''])] Exhausted"







section \<open>Permission normalizer: properties\<close>

lemma chown_each_eq:
  "chown_each w uid gid ps s =
     ((case find (\<lambda>p. chown_error w p uid gid \<noteq> None) ps of
         None \<Rightarrow> None | Some p \<Rightarrow> chown_error w p uid gid),
      s\<lparr>chowned := chowned s @ map (\<lambda>p. (p, uid, gid))
                        (takeWhile (\<lambda>p. chown_error w p uid gid = None) ps)\<rparr>)"
  by (induction ps arbitrary: s) (auto split: option.splits)






text \<open>
  \<^verbatim>\<open>fix_permissions\<close> of adapter.py changes no ownership when an identity value is absent,
  empty or not an integer: its conversions stand inside the \<^verbatim>\<open>try\<close>.
\<close>

lemma fix_permissions_noop:
  assumes "falsy (environ_get s ''HOST_UID'') \<or> falsy (environ_get s ''HOST_GID'')
           \<or> (\<exists>v e. environ_get s ''HOST_UID'' = Some v \<and> py_int v = Inl e)
           \<or> (\<exists>v e. environ_get s ''HOST_GID'' = Some v \<and> py_int v = Inl e)"
  shows "chowned (fix_permissions w directory s) = chowned s"
  using assms
  by (auto simp: fix_permissions_def Let_def print_def falsy_def split: option.splits sum.splits)

text \<open>
  Claim C10 at \<^verbatim>\<open>HOST_UID=abc\<close>, \<^verbatim>\<open>HOST_GID=1000\<close>: \<^verbatim>\<open>PermissionFixer.fix_permissions\<close>,
  called without identity arguments, raises \<^verbatim>\<open>ValueError\<close> instead of returning.
\<close>

theorem PermissionFixer_unparsable_uid_raises:
  "PermissionFixer_fix_permissions fs0 output_dir None None
     (sys0 [(''HOST_UID'', ''abc''), (''HOST_GID'', ''1000'')])
   = Inl (Exn ''ValueError'' (''invalid literal for int() with base 10: '' @ repr_str ''abc''))"
  by code_simp

section \<open>The session and the run: auxiliary facts\<close>

lemma add_text_eq: "add_text out bs = out @ concat (map block_text bs)"
  by (induction out bs rule: add_text.induct) auto

lemma receive_response_fst:
  "fst (receive_response w ms (out, succ) s) =
     (case terminal_result ms of
        Some is_error \<Rightarrow> Done (out @ accumulated ms, if is_error then False else succ)
      | None \<Rightarrow> (case stream_end w of
                   Exhausted \<Rightarrow> Done (out @ accumulated ms, succ)
                 | Raises e \<Rightarrow> Raised e
                 | Never \<Rightarrow> Waiting))"
proof (induction ms arbitrary: out s)
  case Nil
  then show ?case by (simp split: stream_end.splits)
next
  case (Cons x ms)
  show ?case
  proof (cases x)
    case (Pair waited m)
    then show ?thesis
      by (cases m) (simp_all add: Let_def Cons.IH add_text_eq split: option.splits stream_end.splits)
  qed
qed

lemma receive_response_snd:
  "execution_log s = Some cs \<Longrightarrow>
   snd (receive_response w ms (out, succ) s) =
     s\<lparr>console := console s @ task_result_lines ms,
       execution_log := Some (cs @ map (log_line w) (consumed ms))\<rparr>"
proof (induction ms arbitrary: out s cs)
  case Nil
  then show ?case by (simp split: stream_end.splits)
next
  case (Cons x ms)
  show ?case
  proof (cases x)
    case (Pair waited m)
    let ?s1 = "log_write (''Message: '' @ msg_str w m @ NL) s"
    have l: "execution_log ?s1 = Some (cs @ [''Message: '' @ msg_str w m @ NL])"
      using Cons.prems by (simp add: log_write_def)
    note IH = Cons.IH [OF l]
    show ?thesis
    proof (cases m)
      case (AssistantMessage content)
      then show ?thesis
        using Pair IH [of "add_text out content"]
        by (simp add: Let_def log_line_def log_write_def)
    next
      case (ResultMessage subtype is_error)
      then show ?thesis
        using Pair Cons.prems
        by (simp add: Let_def log_line_def log_write_def print_def)
    next
      case (OtherMessage y)
      then show ?thesis
        using Pair IH [of out]
        by (simp add: Let_def log_line_def log_write_def)
    qed
  qed
qed


lemma session_fst:
  "fst (session w um s) =
     (case session_error w of
        Some e \<Rightarrow> Raised e
      | None \<Rightarrow> if session_hangs w then Waiting
                else Done (accumulated (stream w), terminal_result (stream w) \<noteq> Some True))"
proof -
  have rr: "\<And>s'. (case receive_response w (stream w) ([], True) s' of
                     (Done (result, success), s) \<Rightarrow> Done (result, success)
                   | (Raised e, s) \<Rightarrow> Raised e
                   | (Waiting, s) \<Rightarrow> Waiting) = fst (receive_response w (stream w) ([], True) s')"
    by (auto split: prod.splits outcome.splits)
  have "fst (session w um s) =
          (case connect_error w of Some e \<Rightarrow> Raised e
           | None \<Rightarrow> (case query_error w of Some e \<Rightarrow> Raised e
              | None \<Rightarrow> fst (receive_response w (stream w) ([], True)
                    ((print ''Session established. Running query...''
                       (print ''Connecting to Claude Code...'' s))
                       \<lparr>execution_log := Some [], queries := queries s @ [um]\<rparr>))))"
    by (auto simp: session_def Let_def print_def split: option.splits prod.splits outcome.splits)
  then show ?thesis
    by (auto simp: receive_response_fst session_error_def session_hangs_def
          split: option.splits stream_end.splits)
qed


lemma session_log:
  assumes "connect_error w = None" "query_error w = None"
  shows "execution_log (snd (session w um s)) =
           Some (map (log_line w) (consumed (stream w))
                 @ (case fst (session w um s) of
                      Done (result, success) \<Rightarrow> [final_output_line result]
                    | _ \<Rightarrow> []))"
proof -
  let ?s2 = "(print ''Session established. Running query...''
               (print ''Connecting to Claude Code...'' s))
               \<lparr>execution_log := Some [], queries := queries s @ [um]\<rparr>"
  have l: "execution_log ?s2 = Some []" by simp
  have rr: "receive_response w (stream w) ([], True) ?s2 =
              (fst (receive_response w (stream w) ([], True) ?s2),
               ?s2\<lparr>console := console ?s2 @ task_result_lines (stream w),
                    execution_log := Some ([] @ map (log_line w) (consumed (stream w)))\<rparr>)"
    using receive_response_snd [OF l, of w "stream w" "[]" True] by (simp add: prod_eq_iff)
  show ?thesis
    using rr assms
    by (auto simp: session_def Let_def print_def log_write_def final_output_line_def
          split: option.splits prod.splits outcome.splits)
qed


lemma fix_permissions_fields:
  "writes (fix_permissions f directory s) = writes s"
  "commands (fix_permissions f directory s) = commands s"
  "execution_log (fix_permissions f directory s) = execution_log s"
  by (auto simp: fix_permissions_def Let_def print_def chown_each_eq
        split: option.splits sum.splits prod.splits)

lemma subprocess_run_fields:
  "writes (snd (subprocess_run w cmd check s)) = writes s"
  "commands (snd (subprocess_run w cmd check s)) = commands s @ [cmd]"
  "execution_log (snd (subprocess_run w cmd check s)) = execution_log s"
  by (simp_all add: subprocess_run_def Let_def)

lemma paths [simp]:
  "manifest_path = ''/holon/output/manifest.json''"
  "diff_path = ''/holon/output/diff.patch''"
  "summary_out = ''/holon/output/summary.md''"
  by (simp_all add: manifest_path_def diff_path_def summary_out_def output_dir_def os_path_join_def)








lemma extract_goal_Inr: "(\<exists>g. extract_goal spec = Inr g) \<longleftrightarrow> (\<exists>d. spec = YMap d)"
  by (auto simp: extract_goal_def Let_def split: yaml.splits)

lemma load_inputs_fst:
  "fst (load_inputs w s) =
     (case spec_file w of
        None \<Rightarrow> Inl (SysExit 1)
      | Some (Inl e) \<Rightarrow> Inl (Uncaught e)
      | Some (Inr spec) \<Rightarrow>
         (case extract_goal spec of
            Inl e \<Rightarrow> Inl (Uncaught e)
          | Inr goal \<Rightarrow>
             (case system_prompt_file w of
                None \<Rightarrow> Inl (SysExit 1)
              | Some system_instruction \<Rightarrow>
                 (case user_prompt_file w of
                    None \<Rightarrow> Inl (SysExit 1)
                  | Some user_msg \<Rightarrow> Inr (goal, system_instruction, user_msg)))))"
  by (auto simp: load_inputs_def Let_def split: option.splits sum.splits)

lemma config_fold_fields:
  "writes (foldl (\<lambda>s cmd. snd (subprocess_run w cmd False s)) s cmds) = writes s"
  "commands (foldl (\<lambda>s cmd. snd (subprocess_run w cmd False s)) s cmds) = commands s @ cmds"
  by (induction cmds arbitrary: s) (simp_all add: subprocess_run_fields)

lemma git_baseline_existing:
  "has_git w \<Longrightarrow> fst (git_baseline w s) = None"
  "has_git w \<Longrightarrow> writes (snd (git_baseline w s)) = writes s"
  "has_git w \<Longrightarrow> commands (snd (git_baseline w s)) = commands s @ git_config_commands"
  by (simp_all add: git_baseline_def Let_def print_def config_fold_fields)

lemma git_baseline_fst:
  "fst (git_baseline w s) = None \<longleftrightarrow>
     (has_git w \<or> (returncode w [''git'', ''init''] = 0 \<and> returncode w [''git'', ''add'', ''-A''] = 0
                   \<and> returncode w [''git'', ''commit'', ''-m'', ''holon-baseline''] = 0))"
  by (auto simp: git_baseline_def Let_def then_run_def subprocess_run_def split: prod.splits option.splits if_splits)




lemma run_adapter_ready:
  assumes "ready w"
  shows "run_adapter w s =
           (case session w (user_msg_of w) (before_session w s) of
              (Done (result, success), s') \<Rightarrow>
                 (Returned, generate_artifacts w (goal_of w) result success s')
            | (Raised e, s') \<Rightarrow> (SysExit 1, failure_path w e s')
            | (Waiting, s') \<Rightarrow> (Blocked, s'))"
proof -
  from assms obtain d si um where
    sp: "spec_file w = Some (Inr (YMap d))" and si: "system_prompt_file w = Some si"
    and um: "user_prompt_file w = Some um"
    by (auto simp: ready_def split: option.splits sum.splits yaml.splits)
  obtain g where g: "extract_goal (YMap d) = Inr g"
    using extract_goal_Inr by blast
  obtain r1 s1 where li: "load_inputs w s = (r1, s1)"
    by (cases "load_inputs w s")
  have r1: "r1 = Inr (g, si, um)"
    using load_inputs_fst [of w s] sp si um g li by simp
  obtain r2 s2 where gb: "git_baseline w s1 = (r2, s2)"
    by (cases "git_baseline w s1")
  have r2: "r2 = None"
    using git_baseline_fst [of w s1] assms gb by (simp add: ready_def)
  have bs: "before_session w s = sync_settings w s2"
    by (simp add: before_session_def li gb)
  have gw: "goal_of w = g" "user_msg_of w = um"
    by (simp_all add: goal_of_def user_msg_of_def sp um g)
  show ?thesis
    unfolding gw by (simp add: run_adapter_def li r1 gb r2 bs)
qed


section \<open>Baseline and goal extraction: properties\<close>

lemma config_commands_no_commit: "filter is_commit git_config_commands = []"
  by (simp add: is_commit_def git_config_commands_def)

text \<open>
  Claim C8. When the workspace already has its version-control metadata, the baseline step
  runs the three configuration commands and nothing else: no command fails, no file is
  written, no commit is created, and a second run of the step creates none either.
\<close>

theorem baseline_existing_repo_unchanged:
  assumes "has_git w"
  shows "fst (git_baseline w s) = None
         \<and> writes (snd (git_baseline w s)) = writes s
         \<and> commands (snd (git_baseline w s)) = commands s @ git_config_commands
         \<and> commit_count (snd (git_baseline w s)) = commit_count s
         \<and> commit_count (snd (git_baseline w (snd (git_baseline w s)))) = commit_count s"
  using assms
  by (simp add: git_baseline_existing commit_count_def config_commands_no_commit)

theorem baseline_existing_repo_unchanged_witness:
  "has_git w_scenario
   \<and> fst (git_baseline w_scenario (sys0 [])) = None
   \<and> writes (snd (git_baseline w_scenario (sys0 []))) = []
   \<and> commit_count (snd (git_baseline w_scenario (snd (git_baseline w_scenario (sys0 []))))) = 0"
proof -
  have h: "has_git w_scenario" by (simp add: w_scenario_def world0_def)
  have z: "writes (sys0 []) = []" "commit_count (sys0 []) = 0"
    by (simp_all add: sys0_def commit_count_def)
  from baseline_existing_repo_unchanged [OF h, of "sys0 []"]
  show ?thesis using h z by simp
qed




section \<open>The session and the manifest: properties\<close>



lemma result_after_prefix:
  assumes "terminal_result pre = None"
  shows "terminal_result (pre @ (waited, ResultMessage subtype is_error) # rest) = Some is_error"
    and "accumulated (pre @ (waited, ResultMessage subtype is_error) # rest) = all_text pre"
    and "consumed (pre @ (waited, ResultMessage subtype is_error) # rest)
           = pre @ [(waited, ResultMessage subtype is_error)]"
  using assms
  by (induction pre rule: terminal_result.induct) (simp_all add: all_text_def)

lemma generate_artifacts_log:
  "execution_log (generate_artifacts w goal result success s) = execution_log s"
  by (simp add: generate_artifacts_def Let_def fix_permissions_fields subprocess_run_fields
        print_def write_file_def split: option.splits)

text \<open>
  Claim C7. When the response holds a \<^verbatim>\<open>Result\<close> and no message before it is one, the
  session's output is the concatenation, in arrival order, of the text of the messages
  before it, the success flag is the negation of \<open>is_error\<close>, and the evidence log of
  the run holds one line for each of these messages and for the \<^verbatim>\<open>Result\<close>, in arrival
  order, followed by the final output. What comes after the \<^verbatim>\<open>Result\<close> appears nowhere.
\<close>

theorem output_concatenates_text_before_result:
  assumes "ready w" and "connect_error w = None" and "query_error w = None"
    and "stream w = pre @ (waited, ResultMessage subtype is_error) # rest"
    and "terminal_result pre = None"
  shows "fst (session w (user_msg_of w) (before_session w s)) = Done (all_text pre, \<not> is_error)
         \<and> fst (run_adapter w s) = Returned
         \<and> execution_log (snd (run_adapter w s)) =
             Some (map (log_line w) (pre @ [(waited, ResultMessage subtype is_error)])
                   @ [final_output_line (all_text pre)])"
proof -
  let ?r = "session w (user_msg_of w) (before_session w s)"
  note pre = result_after_prefix [OF assms(5), of waited subtype is_error rest]
  have se: "session_error w = None" "\<not> session_hangs w"
    using assms pre by (simp_all add: session_error_def session_hangs_def)
  have f: "fst ?r = Done (all_text pre, \<not> is_error)"
    using se assms(4) pre by (simp add: session_fst)
  have l: "execution_log (snd ?r) =
             Some (map (log_line w) (pre @ [(waited, ResultMessage subtype is_error)])
                   @ [final_output_line (all_text pre)])"
    using session_log [OF assms(2,3), of "user_msg_of w" "before_session w s"] f assms(4) pre
    by simp
  obtain s' where r: "?r = (Done (all_text pre, \<not> is_error), s')"
    using f by (cases ?r) simp
  have run: "run_adapter w s = (Returned, generate_artifacts w (goal_of w) (all_text pre) (\<not> is_error) s')"
    by (simp add: run_adapter_ready [OF assms(1)] r)
  show ?thesis
    using f l r run by (simp add: generate_artifacts_log)
qed


theorem output_concatenates_text_before_result_witness:
  "ready w_scenario \<and> connect_error w_scenario = None \<and> query_error w_scenario = None
   \<and> stream w_scenario =
        [(1, AssistantMessage [TextBlock ''Creating file'']),
         (1, AssistantMessage [ToolUseBlock ''Write'', TextBlock ''Done''])]
        @ (1, ResultMessage ''success'' False) # [(1, AssistantMessage [TextBlock ''ignored''])]
   \<and> terminal_result [(1, AssistantMessage [TextBlock ''Creating file'']),
                        (1, AssistantMessage [ToolUseBlock ''Write'', TextBlock ''Done''])] = None
   \<and> fst (session w_scenario (user_msg_of w_scenario) (before_session w_scenario (sys0 [])))
        = Done (''Creating fileDone'', True)
   \<and> execution_log (snd (run_adapter w_scenario (sys0 []))) =
        Some (map (log_line w_scenario)
                [(1, AssistantMessage [TextBlock ''Creating file'']),
                 (1, AssistantMessage [ToolUseBlock ''Write'', TextBlock ''Done'']),
                 (1, ResultMessage ''success'' False)]
              @ [final_output_line ''Creating fileDone''])"
proof -
  let ?pre = "[(1::nat, AssistantMessage [TextBlock ''Creating file'']),
               (1, AssistantMessage [ToolUseBlock ''Write'', TextBlock ''Done''])]"
  have h1: "ready w_scenario" by (simp add: ready_def w_scenario_def world0_def)
  have h2: "connect_error w_scenario = None" by (simp add: w_scenario_def world0_def)
  have h3: "query_error w_scenario = None" by (simp add: w_scenario_def world0_def)
  have h4: "stream w_scenario = ?pre @ (1, ResultMessage ''success'' False)
                                  # [(1, AssistantMessage [TextBlock ''ignored''])]"
    by (simp add: w_scenario_def world0_def)
  have h5: "terminal_result ?pre = None" by simp
  have t: "all_text ?pre = ''Creating fileDone''" by (simp add: all_text_def)
  from output_concatenates_text_before_result [OF h1 h2 h3 h4 h5, of "sys0 []"]
  show ?thesis using h1 h2 h3 h4 h5 t by simp
qed














lemma receive_response_cong:
  assumes "msg_str w1 = msg_str w2" and "stream_end w1 = stream_end w2"
  shows "receive_response w1 ms acc s = receive_response w2 ms acc s"
  using assms
  by (induction w1 ms acc s rule: receive_response.induct) (auto simp: Let_def split: msg.splits)



lemma subprocess_run_stream [simp]:
  "subprocess_run (w\<lparr>stream := a, stream_end := f\<rparr>) = subprocess_run w"
  by (simp add: subprocess_run_def fun_eq_iff Let_def cong: if_cong)


















section \<open>Time boundaries: properties\<close>








end
